theory Spec2Isabelle
  imports Complex_Main
begin

section \<open>Paths (Node path module, POSIX flavour)\<close>

text \<open>
  The scanner calls \<^verbatim>\<open>path.join\<close>, \<^verbatim>\<open>path.basename\<close> and \<^verbatim>\<open>path.extname\<close>. A
  directory entry name contains no slash, so joining is concatenation with a separator
  (the normalisation of the directory part does not change the last component, which is
  all the classifier reads). \<^verbatim>\<open>basename\<close> is the last component, trailing slashes
  dropped. \<^verbatim>\<open>extname\<close> is the part of the base name from its last dot to the end, and
  empty when there is no dot, when the only dot is the first character, and for
  \<^verbatim>\<open>..\<close>.
\<close>

definition join :: "string \<Rightarrow> string \<Rightarrow> string" where
  "join dirPath name = dirPath @ ''/'' @ name"

definition basename :: "string \<Rightarrow> string" where
  "basename p =
     rev (takeWhile (\<lambda>c. c \<noteq> CHR ''/'') (dropWhile (\<lambda>c. c = CHR ''/'') (rev p)))"

definition extname :: "string \<Rightarrow> string" where
  "extname p =
     (let b = basename p;
          suffix = rev (takeWhile (\<lambda>c. c \<noteq> CHR ''.'') (rev b))
      in if CHR ''.'' \<notin> set b then []
         else if Suc (length suffix) = length b then []
         else if b = ''..'' then []
         else CHR ''.'' # suffix)"

text \<open>
  \<^verbatim>\<open>toLowerCase\<close> on the ASCII letters; \<^verbatim>\<open>startsWith\<close>.
\<close>

definition lowerChar :: "char \<Rightarrow> char" where
  "lowerChar c =
     (if (65::nat) \<le> of_char c \<and> of_char c \<le> (90::nat) then char_of (of_char c + (32::nat)) else c)"

definition toLowerCase :: "string \<Rightarrow> string" where
  "toLowerCase s = map lowerChar s"

definition startsWith :: "string \<Rightarrow> string \<Rightarrow> bool" where
  "startsWith s p = (take (length p) s = p)"

section \<open>The directory walk (local-project-scanner.ts, walkDirectory)\<close>

text \<open>
  A directory tree as \<^verbatim>\<open>fs.readdir\<close> with \<^verbatim>\<open>withFileTypes\<close> shows it. Every entry has
  one kind: a \<^verbatim>\<open>Dirent\<close> of a symbolic link answers \<^verbatim>\<open>isSymbolicLink\<close> only, neither
  \<^verbatim>\<open>isDirectory\<close> nor \<^verbatim>\<open>isFile\<close>, whatever the link points to; the link keeps its
  target as a path, which may name an ancestor.
  \<^item> \<open>RegularFile s\<close>: \<open>s\<close> is the size \<^verbatim>\<open>fs.stat\<close> returns, \<open>None\<close> when it throws;
  \<^item> \<open>Directory es\<close>: a directory whose listing is \<open>es\<close>, in \<^verbatim>\<open>readdir\<close> order;
  \<^item> \<open>UnreadableDirectory\<close>: a directory whose \<^verbatim>\<open>readdir\<close> throws;
  \<^item> \<open>SymbolicLink target\<close>; \<open>OtherEntry\<close>: sockets, FIFOs and devices.
\<close>

datatype fs_node =
    RegularFile "nat option"
  | Directory "(string \<times> fs_node) list"
  | UnreadableDirectory
  | SymbolicLink string
  | OtherEntry

definition SKIP_DIRS :: "string list" where
  "SKIP_DIRS =
    [''node_modules'', ''.git'', ''.svn'', ''.hg'', ''dist'', ''build'', ''out'',
     ''.next'', ''.nuxt'', ''__pycache__'', ''.pytest_cache'', ''.mypy_cache'',
     ''venv'', ''.venv'', ''env'', ''.env'', ''vendor'', ''target'', ''.cargo'',
     ''coverage'', ''.idea'', ''.vscode'', ''tmp'', ''temp'', ''logs'',
     ''.cache'', ''.parcel-cache'', ''.turbo'', ''.output'',
     ''bower_components'', ''jspm_packages'',
     ''zig-cache'', ''zig-out'']"

text \<open>
  \<^verbatim>\<open>walkDirectory\<close> calls its callback once per visited file, in order; the model returns
  the list of these calls (path and size), and the caller folds its callback over it. A
  \<^verbatim>\<open>readdir\<close> that throws returns from the call: no file is visited there. The function
  takes the directory path and the callback only: there is no depth and no counter.
\<close>

fun isDirectory :: "fs_node \<Rightarrow> bool" where
  "isDirectory (Directory entries) = True"
| "isDirectory UnreadableDirectory = True"
| "isDirectory _ = False"

fun walkDirectory :: "string \<Rightarrow> fs_node \<Rightarrow> (string \<times> nat) list" where
  "walkDirectory dirPath (Directory entries) =
     concat (map (\<lambda>(name, node).
        if isDirectory node then
          (if name \<in> set SKIP_DIRS \<or> startsWith name ''.'' then []
           else walkDirectory (join dirPath name) node)
        else (case node of
                RegularFile (Some fileSize) \<Rightarrow> [(join dirPath name, fileSize)]
              | _ \<Rightarrow> [])) entries)"
| "walkDirectory dirPath _ = []"

section \<open>Language tables (local-project-scanner.ts)\<close>

definition EXTENSION_TO_LANGUAGE :: "(string \<times> string) list" where
  "EXTENSION_TO_LANGUAGE =
    [(''.c'', ''C''), (''.h'', ''C''), (''.cpp'', ''C++''), (''.cc'', ''C++''), (''.cxx'', ''C++''),
     (''.hpp'', ''C++''), (''.hh'', ''C++''), (''.hxx'', ''C++''), (''.c++'', ''C++''),
     (''.m'', ''Objective-C''), (''.mm'', ''Objective-C++''),
     (''.js'', ''JavaScript''), (''.mjs'', ''JavaScript''), (''.cjs'', ''JavaScript''),
     (''.jsx'', ''JavaScript''), (''.ts'', ''TypeScript''), (''.tsx'', ''TypeScript''),
     (''.mts'', ''TypeScript''), (''.cts'', ''TypeScript''),
     (''.html'', ''HTML''), (''.htm'', ''HTML''),
     (''.css'', ''CSS''), (''.scss'', ''SCSS''), (''.sass'', ''Sass''), (''.less'', ''Less''),
     (''.svelte'', ''Svelte''), (''.vue'', ''Vue''),
     (''.rs'', ''Rust''), (''.go'', ''Go''), (''.zig'', ''Zig''),
     (''.swift'', ''Swift''), (''.kt'', ''Kotlin''), (''.kts'', ''Kotlin''),
     (''.java'', ''Java''), (''.scala'', ''Scala''), (''.clj'', ''Clojure''),
     (''.groovy'', ''Groovy''), (''.gradle'', ''Groovy''),
     (''.py'', ''Python''), (''.pyw'', ''Python''), (''.pyi'', ''Python''),
     (''.rb'', ''Ruby''), (''.erb'', ''Ruby''),
     (''.php'', ''PHP''),
     (''.pl'', ''Perl''), (''.pm'', ''Perl''),
     (''.lua'', ''Lua''),
     (''.r'', ''R''), (''.R'', ''R''),
     (''.jl'', ''Julia''),
     (''.sh'', ''Shell''), (''.bash'', ''Shell''), (''.zsh'', ''Shell''),
     (''.fish'', ''Shell''), (''.ps1'', ''PowerShell''), (''.bat'', ''Batchfile''),
     (''.cmd'', ''Batchfile''),
     (''.json'', ''JSON''), (''.yaml'', ''YAML''), (''.yml'', ''YAML''),
     (''.toml'', ''TOML''), (''.xml'', ''XML''), (''.ini'', ''INI''),
     (''.cu'', ''Cuda''), (''.cuh'', ''Cuda''),
     (''.metal'', ''Metal''),
     (''.glsl'', ''GLSL''), (''.vert'', ''GLSL''), (''.frag'', ''GLSL''),
     (''.wgsl'', ''WGSL''), (''.hlsl'', ''HLSL''),
     (''.cmake'', ''CMake''),
     (''.cs'', ''C#''), (''.fs'', ''F#''), (''.vb'', ''Visual Basic''),
     (''.ex'', ''Elixir''), (''.exs'', ''Elixir''),
     (''.erl'', ''Erlang''), (''.hrl'', ''Erlang''),
     (''.hs'', ''Haskell''), (''.lhs'', ''Haskell''),
     (''.ml'', ''OCaml''), (''.mli'', ''OCaml''),
     (''.dart'', ''Dart''),
     (''.sol'', ''Solidity''), (''.v'', ''V''), (''.nim'', ''Nim''),
     (''.d'', ''D''), (''.cr'', ''Crystal''),
     (''.md'', ''Markdown''), (''.rst'', ''reStructuredText''),
     (''.tex'', ''TeX''), (''.latex'', ''TeX'')]"

definition FILENAME_TO_LANGUAGE :: "(string \<times> string) list" where
  "FILENAME_TO_LANGUAGE =
    [(''Dockerfile'', ''Dockerfile''),
     (''Makefile'', ''Makefile''),
     (''CMakeLists.txt'', ''CMake''),
     (''Rakefile'', ''Ruby''),
     (''Gemfile'', ''Ruby''),
     (''Vagrantfile'', ''Ruby''),
     (''Justfile'', ''Just''),
     (''Taskfile.yml'', ''YAML'')]"

definition SKIP_EXTENSIONS :: "string list" where
  "SKIP_EXTENSIONS =
    [''.png'', ''.jpg'', ''.jpeg'', ''.gif'', ''.ico'', ''.svg'', ''.webp'', ''.bmp'',
     ''.mp3'', ''.mp4'', ''.wav'', ''.avi'', ''.mov'', ''.flac'', ''.ogg'',
     ''.zip'', ''.tar'', ''.gz'', ''.bz2'', ''.xz'', ''.7z'', ''.rar'',
     ''.woff'', ''.woff2'', ''.ttf'', ''.eot'', ''.otf'',
     ''.pdf'', ''.doc'', ''.docx'', ''.xls'', ''.xlsx'',
     ''.exe'', ''.dll'', ''.so'', ''.dylib'', ''.o'', ''.obj'', ''.a'',
     ''.lock'', ''.lockb'',
     ''.map'', ''.min.js'', ''.min.css'',
     ''.pyc'', ''.pyo'', ''.class'',
     ''.db'', ''.sqlite'', ''.sqlite3'']"

definition EXCLUDE_FROM_PERCENTAGES :: "string list" where
  "EXCLUDE_FROM_PERCENTAGES =
    [''JSON'', ''YAML'', ''TOML'', ''XML'', ''INI'', ''Markdown'',
     ''reStructuredText'', ''TeX'']"

section \<open>scanLanguages\<close>

text \<open>
  The accumulators of \<^verbatim>\<open>scanLanguages\<close>. \<^verbatim>\<open>languageBytes\<close> is an object keyed by
  language name, so its entries are kept in insertion order: the order in which each
  language was first met. File sizes are natural numbers, percentages exact rationals.
  Keys of the two tables are looked up among the tables' own entries.
\<close>

record scan_totals =
  totalFiles :: nat
  totalBytes :: nat

record scan_state = scan_totals +
  languageBytes :: "(string \<times> nat \<times> nat) list"

record language_breakdown =
  language :: string
  bytes :: nat
  percentage :: rat
  fileCount :: nat

record language_result = scan_totals +
  languages :: "language_breakdown list"
  primaryLanguage :: string

definition languageFor :: "string \<Rightarrow> string \<Rightarrow> string option" where
  "languageFor ext base =
     (case map_of EXTENSION_TO_LANGUAGE ext of
        Some l \<Rightarrow> Some l
      | None \<Rightarrow> map_of FILENAME_TO_LANGUAGE base)"

fun addBytes :: "string \<Rightarrow> nat \<Rightarrow> (string \<times> nat \<times> nat) list \<Rightarrow> (string \<times> nat \<times> nat) list" where
  "addBytes lang fileSize [] = [(lang, fileSize, 1)]"
| "addBytes lang fileSize ((l, b, f) # rest) =
     (if l = lang then (l, b + fileSize, f + 1) # rest
      else (l, b, f) # addBytes lang fileSize rest)"

definition callback :: "scan_state \<Rightarrow> string \<times> nat \<Rightarrow> scan_state" where
  "callback st visit =
     (let filePath = fst visit;
          fileSize = snd visit;
          ext = toLowerCase (extname filePath);
          base = basename filePath
      in if ext \<in> set SKIP_EXTENSIONS then st
         else (case languageFor ext base of
                 None \<Rightarrow> st
               | Some lang \<Rightarrow>
                   st\<lparr>totalFiles := totalFiles st + 1,
                      totalBytes := totalBytes st + fileSize,
                      languageBytes := addBytes lang fileSize (languageBytes st)\<rparr>))"

definition codeEntries :: "scan_state \<Rightarrow> (string \<times> nat \<times> nat) list" where
  "codeEntries st = filter (\<lambda>e. fst e \<notin> set EXCLUDE_FROM_PERCENTAGES) (languageBytes st)"

definition codeTotalBytes :: "scan_state \<Rightarrow> nat" where
  "codeTotalBytes st = sum_list (map (\<lambda>e. fst (snd e)) (codeEntries st))"

definition breakdown :: "nat \<Rightarrow> string \<times> nat \<times> nat \<Rightarrow> language_breakdown" where
  "breakdown codeTotal e =
     \<lparr>language = fst e,
      bytes = fst (snd e),
      percentage = (if codeTotal > 0 then (of_nat (fst (snd e)) / of_nat codeTotal) * 100 else 0),
      fileCount = snd (snd e)\<rparr>"

text \<open>
  \<^verbatim>\<open>.sort((a, b) => b.bytes - a.bytes)\<close>: \<^verbatim>\<open>Array.prototype.sort\<close> is stable, as is
  \<^const>\<open>sort_key\<close>, here on the negated byte count.
\<close>

definition sortByBytesDesc :: "language_breakdown list \<Rightarrow> language_breakdown list" where
  "sortByBytesDesc ls = sort_key (\<lambda>l. - int (bytes l)) ls"

definition scanState :: "string \<Rightarrow> fs_node \<Rightarrow> scan_state" where
  "scanState projectRoot tree =
     foldl callback \<lparr>totalFiles = 0, totalBytes = 0, languageBytes = []\<rparr>
       (walkDirectory projectRoot tree)"

definition scanLanguages :: "string \<Rightarrow> fs_node \<Rightarrow> language_result" where
  "scanLanguages projectRoot tree =
     (let st = scanState projectRoot tree;
          langs = sortByBytesDesc (map (breakdown (codeTotalBytes st)) (codeEntries st))
      in \<lparr>totalFiles = totalFiles st,
          totalBytes = totalBytes st,
          languages = langs,
          primaryLanguage = (if length langs > 0 then language (hd langs) else ''Unknown'')\<rparr>)"

section \<open>Notions used to state the scanner properties\<close>

text \<open>
  The language the callback counts a path under, \<open>None\<close> when it returns early.
\<close>

definition classifyPath :: "string \<Rightarrow> string option" where
  "classifyPath filePath =
     (let ext = toLowerCase (extname filePath)
      in if ext \<in> set SKIP_EXTENSIONS then None else languageFor ext (basename filePath))"

text \<open>
  The tree with every symbolic link removed; the number of regular files of a tree; a
  chain of \<open>n\<close> nested directories with one source file at the bottom, and the path of
  that file.
\<close>

fun isSymbolicLink :: "fs_node \<Rightarrow> bool" where
  "isSymbolicLink (SymbolicLink target) = True"
| "isSymbolicLink _ = False"

fun withoutSymlinks :: "fs_node \<Rightarrow> fs_node" where
  "withoutSymlinks (Directory entries) =
     Directory (map (\<lambda>e. (fst e, withoutSymlinks (snd e)))
                  (filter (\<lambda>e. \<not> isSymbolicLink (snd e)) entries))"
| "withoutSymlinks node = node"

fun regularFiles :: "fs_node \<Rightarrow> nat" where
  "regularFiles (Directory entries) = sum_list (map (\<lambda>e. regularFiles (snd e)) entries)"
| "regularFiles (RegularFile st) = 1"
| "regularFiles node = 0"

fun deepTree :: "nat \<Rightarrow> fs_node" where
  "deepTree 0 = Directory [(''main.c'', RegularFile (Some 1))]"
| "deepTree (Suc n) = Directory [(''d'', deepTree n)]"

fun deepPath :: "string \<Rightarrow> nat \<Rightarrow> string" where
  "deepPath p 0 = join p ''main.c''"
| "deepPath p (Suc n) = deepPath (join p ''d'') n"

text \<open>
  The body of the loop over the entries of one directory.
\<close>

definition walkEntry :: "string \<Rightarrow> string \<times> fs_node \<Rightarrow> (string \<times> nat) list" where
  "walkEntry dirPath e =
     (if isDirectory (snd e) then
        (if fst e \<in> set SKIP_DIRS \<or> startsWith (fst e) ''.'' then []
         else walkDirectory (join dirPath (fst e)) (snd e))
      else (case snd e of
              RegularFile (Some fileSize) \<Rightarrow> [(join dirPath (fst e), fileSize)]
            | _ \<Rightarrow> []))"

text \<open>
  What the scan is compared with, read off the list of visited files: the languages in
  the order they are first met, the bytes of one language, the files that count towards
  the percentages, and the accumulator after the visits.
\<close>

definition firstSeen :: "'a list \<Rightarrow> 'a list" where
  "firstSeen xs = rev (remdups (rev xs))"

definition classifiedLanguages :: "(string \<times> nat) list \<Rightarrow> string list" where
  "classifiedLanguages visited = List.map_filter (\<lambda>v. classifyPath (fst v)) visited"


definition isCodeFile :: "string \<times> nat \<Rightarrow> bool" where
  "isCodeFile v =
     (case classifyPath (fst v) of
        None \<Rightarrow> False
      | Some lang \<Rightarrow> lang \<notin> set EXCLUDE_FROM_PERCENTAGES)"

definition scanFrom :: "(string \<times> nat) list \<Rightarrow> scan_state" where
  "scanFrom visited =
     foldl callback \<lparr>totalFiles = 0, totalBytes = 0, languageBytes = []\<rparr> visited"

definition codeLanguages :: "(string \<times> nat) list \<Rightarrow> string list" where
  "codeLanguages visited =
     firstSeen (filter (\<lambda>l. l \<notin> set EXCLUDE_FROM_PERCENTAGES) (classifiedLanguages visited))"

section \<open>JavaScript values and truthiness\<close>

text \<open>
  The generator keeps its context slots in a \<^verbatim>\<open>Record<string, any>\<close> and reads
  package.json through \<^verbatim>\<open>JSON.parse\<close>, so slot values are arbitrary JavaScript values.
  A JSON object is an association list; a lookup takes the first binding of a key, and
  members of \<^verbatim>\<open>Object.prototype\<close> are not modelled. Numbers are exact rationals.
\<close>

datatype jsval =
    Undefined
  | Null
  | JBool bool
  | JNum rat
  | JStr string
  | JArr "jsval list"
  | JObj "(string \<times> jsval) list"

text \<open>
  \<^verbatim>\<open>if (v)\<close>: the falsy values are undefined, null, false, 0 and the empty string.
\<close>

fun truthy :: "jsval \<Rightarrow> bool" where
  "truthy Undefined = False"
| "truthy Null = False"
| "truthy (JBool b) = b"
| "truthy (JNum n) = (n \<noteq> 0)"
| "truthy (JStr s) = (s \<noteq> [])"
| "truthy (JArr xs) = True"
| "truthy (JObj kvs) = True"

text \<open>
  An optional string field of a typed interface: absent is \<^verbatim>\<open>undefined\<close>.
\<close>

fun ofOpt :: "string option \<Rightarrow> jsval" where
  "ofOpt None = Undefined"
| "ofOpt (Some s) = JStr s"

type_synonym slots = "string \<rightharpoonup> jsval"

text \<open>
  \<^verbatim>\<open>contextSlotsFilled[k]\<close>: a missing key reads as undefined.
\<close>

definition slotValue :: "slots \<Rightarrow> string \<Rightarrow> jsval" where
  "slotValue m k = (case m k of None \<Rightarrow> Undefined | Some v \<Rightarrow> v)"

definition filled :: "slots \<Rightarrow> string \<Rightarrow> bool" where
  "filled m k = truthy (slotValue m k)"

text \<open>
  The two exceptions of the model: the \<^verbatim>\<open>Error\<close> thrown for an invalid project root and
  the \<^verbatim>\<open>TypeError\<close> of a property read on null or of a call of a non-function.
\<close>

datatype error = InvalidProjectRoot | TypeError

text \<open>Property read on a value that is neither null nor undefined.\<close>

fun property :: "jsval \<Rightarrow> string \<Rightarrow> jsval" where
  "property (JObj kvs) k = (case map_of kvs k of None \<Rightarrow> Undefined | Some v \<Rightarrow> v)"
| "property v k = Undefined"

text \<open>\<^verbatim>\<open>v.k\<close> on any value: a TypeError on null and undefined.\<close>

fun getProp :: "jsval \<Rightarrow> string \<Rightarrow> error + jsval" where
  "getProp Undefined k = Inl TypeError"
| "getProp Null k = Inl TypeError"
| "getProp v k = Inr (property v k)"

text \<open>
  \<^verbatim>\<open>String.prototype.includes\<close>.
\<close>

fun strIncludes :: "string \<Rightarrow> string \<Rightarrow> bool" where
  "strIncludes [] sub = (sub = [])"
| "strIncludes (c # cs) sub = (take (length sub) (c # cs) = sub \<or> strIncludes cs sub)"

text \<open>
  \<^verbatim>\<open>v?.includes(s)\<close>: undefined on null and undefined, the substring test on a string,
  the membership test on an array, and a TypeError on every other value, which has no
  callable \<^verbatim>\<open>includes\<close>.
\<close>

fun optIncludes :: "jsval \<Rightarrow> string \<Rightarrow> error + jsval" where
  "optIncludes Undefined s = Inr Undefined"
| "optIncludes Null s = Inr Undefined"
| "optIncludes (JStr t) s = Inr (JBool (strIncludes t s))"
| "optIncludes (JArr xs) s = Inr (JBool (JStr s \<in> set xs))"
| "optIncludes v s = Inl TypeError"

text \<open>
  \<^verbatim>\<open>{...a, ...b}\<close>: the own properties of \<open>b\<close> over those of \<open>a\<close>. Spreading null,
  undefined, a number or a boolean adds nothing; spreading an array or a string adds
  index keys only, which no later lookup reads, so they are left out.
\<close>

fun spreadProps :: "jsval \<Rightarrow> (string \<times> jsval) list" where
  "spreadProps (JObj kvs) = kvs"
| "spreadProps v = []"

definition mergeDeps :: "jsval \<Rightarrow> jsval \<Rightarrow> string \<Rightarrow> jsval" where
  "mergeDeps dependencies devDependencies k =
     (case map_of (spreadProps devDependencies) k of
        Some v \<Rightarrow> v
      | None \<Rightarrow> (case map_of (spreadProps dependencies) k of Some v \<Rightarrow> v | None \<Rightarrow> Undefined))"

section \<open>Root-level files\<close>

text \<open>
  The files the generator and the README lookup probe directly under the project root,
  by path relative to the root: \<open>None\<close> when \<^verbatim>\<open>fs.access\<close> fails, \<open>Some None\<close> when the
  entry exists but cannot be read, \<open>Some (Some c)\<close> when \<^verbatim>\<open>fs.readFile\<close> returns \<open>c\<close>.
\<close>

type_synonym root_files = "string \<rightharpoonup> string option"

definition access :: "root_files \<Rightarrow> string \<Rightarrow> bool" where
  "access files name = (files name \<noteq> None)"

definition readFile :: "root_files \<Rightarrow> string \<Rightarrow> string option" where
  "readFile files name = (case files name of None \<Rightarrow> None | Some c \<Rightarrow> c)"

text \<open>
  The README context as far as the generator reads it. \<^verbatim>\<open>findReadme\<close> returns the first
  candidate that \<^verbatim>\<open>fs.access\<close> accepts.
\<close>

record readme_context =
  readme_exists :: bool
  readme_name :: "string option"
  readme_description :: "string option"
  readme_who :: "string option"
  readme_what :: "string option"
  readme_why :: "string option"
  readme_where :: "string option"
  readme_when :: "string option"
  readme_how :: "string option"



definition noReadme :: readme_context where
  "noReadme =
     \<lparr>readme_exists = False, readme_name = None, readme_description = None,
      readme_who = None, readme_what = None, readme_why = None,
      readme_where = None, readme_when = None, readme_how = None\<rparr>"


section \<open>Inputs of the generator\<close>

text \<open>
  The scan result extends the language result; the quality score, tier and factors are
  passed through to the output and left out. \<^verbatim>\<open>topLevelStructure\<close> lists path, whether
  the entry is a directory, and size.
\<close>

record local_scan_result = language_result +
  languageStrings :: "string list"
  readme :: readme_context
  hasLicense :: bool
  licenseName :: "string option"
  hasTests :: bool
  hasCiCd :: bool
  cicdPlatform :: "string option"
  hasDocker :: bool
  topLevelStructure :: "(string \<times> bool \<times> nat) list"

record detection_result =
  fw_framework :: string
  fw_language :: "string option"
  fw_ecosystem :: "string option"

record ai_readme_result =
  ai_description :: string
  ai_who :: "string option"
  ai_what :: "string option"
  ai_why :: "string option"
  ai_where :: "string option"
  ai_when :: "string option"
  ai_how :: "string option"
  ai_projectType :: "string option"

record fab_context =
  ctx_projectName :: "string option"
  ctx_projectGoal :: "string option"
  ctx_mainLanguage :: "string option"
  ctx_framework :: "string option"
  ctx_backend :: "string option"
  ctx_server :: "string option"
  ctx_apiType :: "string option"
  ctx_database :: "string option"
  ctx_hosting :: "string option"
  ctx_cicd :: "string option"
  ctx_buildTool :: "string option"
  ctx_packageManager :: "string option"
  ctx_testFramework :: "string option"
  ctx_linter :: "string option"
  ctx_targetUser :: "string option"
  ctx_coreProblem :: "string option"
  ctx_missionPurpose :: "string option"
  ctx_deploymentMarket :: "string option"
  ctx_timeline :: "string option"
  ctx_approach :: "string option"

record quality_metrics =
  highestGrade :: string
  intelligenceDepth :: rat
  filesCovered :: nat

record fab_analysis =
  fab_ctx :: "fab_context option"
  qualityMetrics :: quality_metrics

record human_context =
  hc_who :: "string option"
  hc_what :: "string option"
  hc_why :: "string option"
  hc_where :: "string option"
  hc_when :: "string option"
  hc_how :: "string option"

record pyproject_data =
  py_name :: "string option"
  py_description :: "string option"

record gen_options =
  opt_projectType :: "string option"
  opt_projectRoot :: jsval
  opt_projectName :: "string option"
  opt_projectGoal :: "string option"
  opt_mainLanguage :: "string option"
  opt_framework :: "string option"
  opt_hosting :: "string option"

text \<open>
  What the collaborators of \<^verbatim>\<open>generateFafFromProject\<close> return for one project. A call
  the source wraps in try/catch is an option, \<open>None\<close> standing for the caught failure.
  \<open>packageJson\<close> is \<open>None\<close> when no package.json was found, \<open>Some None\<close> when reading
  or \<^verbatim>\<open>JSON.parse\<close> threw, \<open>Some (Some v)\<close> when \<^verbatim>\<open>JSON.parse\<close> returned \<open>v\<close>.
\<close>

record world =
  scanResult :: local_scan_result
  frameworkResult :: "detection_result option"
  rootFiles :: root_files
  packageJson :: "jsval option option"
  pyprojectData :: pyproject_data
  fabAnalysis :: fab_analysis
  humanContext :: "human_context option"
  tsContext :: "bool option"
  analyzeReadmeWithAI :: "string \<Rightarrow> string list \<Rightarrow> string \<Rightarrow> ai_readme_result option"
  cargoNameMatch :: "string \<Rightarrow> string option"
  cargoDescMatch :: "string \<Rightarrow> string option"
  jsToString :: "jsval \<Rightarrow> string"

section \<open>Type-aware scoring tables (faf-generator-championship.ts)\<close>

definition SLOT_CATEGORY_MAP :: "(string \<times> string) list" where
  "SLOT_CATEGORY_MAP =
    [(''project_name'', ''project''),
     (''project_goal'', ''project''),
     (''main_language'', ''project''),
     (''framework'', ''frontend''),
     (''backend'', ''backend''),
     (''server'', ''backend''),
     (''api_type'', ''backend''),
     (''database'', ''backend''),
     (''hosting'', ''universal''),
     (''cicd'', ''universal''),
     (''build_tool'', ''universal''),
     (''package_manager'', ''universal''),
     (''test_framework'', ''universal''),
     (''linter'', ''universal''),
     (''who'', ''human''),
     (''what'', ''human''),
     (''why'', ''human''),
     (''where'', ''human''),
     (''when'', ''human''),
     (''how'', ''human'')]"

definition TYPE_APPLICABLE_CATEGORIES :: "(string \<times> string list) list" where
  "TYPE_APPLICABLE_CATEGORIES =
    [(''cli'', [''project'', ''universal'', ''human'']),
     (''cli-tool'', [''project'', ''universal'', ''human'']),
     (''cli-ts'', [''project'', ''universal'', ''human'']),
     (''cli-js'', [''project'', ''universal'', ''human'']),
     (''library'', [''project'', ''universal'', ''human'']),
     (''npm-package'', [''project'', ''universal'', ''human'']),
     (''pip-package'', [''project'', ''universal'', ''human'']),
     (''crate'', [''project'', ''universal'', ''human'']),
     (''typescript'', [''project'', ''universal'', ''human'']),
     (''data-science'', [''project'', ''backend'', ''human'']),
     (''ml-model'', [''project'', ''backend'', ''human'']),
     (''mcp-server'', [''project'', ''backend'', ''human'']),
     (''backend-api'', [''project'', ''backend'', ''universal'', ''human'']),
     (''node-api'', [''project'', ''backend'', ''universal'', ''human'']),
     (''node-api-ts'', [''project'', ''backend'', ''universal'', ''human'']),
     (''python-api'', [''project'', ''backend'', ''universal'', ''human'']),
     (''python-app'', [''project'', ''backend'', ''human'']),
     (''python-generic'', [''project'', ''backend'', ''human'']),
     (''go-api'', [''project'', ''backend'', ''universal'', ''human'']),
     (''rust-api'', [''project'', ''backend'', ''universal'', ''human'']),
     (''frontend'', [''project'', ''frontend'', ''universal'', ''human'']),
     (''react'', [''project'', ''frontend'', ''universal'', ''human'']),
     (''react-ts'', [''project'', ''frontend'', ''universal'', ''human'']),
     (''vue'', [''project'', ''frontend'', ''universal'', ''human'']),
     (''vue-ts'', [''project'', ''frontend'', ''universal'', ''human'']),
     (''svelte'', [''project'', ''frontend'', ''universal'', ''human'']),
     (''svelte-ts'', [''project'', ''frontend'', ''universal'', ''human'']),
     (''angular'', [''project'', ''frontend'', ''universal'', ''human'']),
     (''static-html'', [''project'', ''frontend'', ''human'']),
     (''fullstack'', [''project'', ''frontend'', ''backend'', ''universal'', ''human'']),
     (''fullstack-ts'', [''project'', ''frontend'', ''backend'', ''universal'', ''human'']),
     (''nextjs'', [''project'', ''frontend'', ''backend'', ''universal'', ''human'']),
     (''django'', [''project'', ''frontend'', ''backend'', ''universal'', ''human'']),
     (''rails'', [''project'', ''frontend'', ''backend'', ''universal'', ''human'']),
     (''mobile'', [''project'', ''frontend'', ''human'']),
     (''react-native'', [''project'', ''frontend'', ''human'']),
     (''flutter'', [''project'', ''frontend'', ''human'']),
     (''ios'', [''project'', ''frontend'', ''human'']),
     (''android'', [''project'', ''frontend'', ''human'']),
     (''desktop'', [''project'', ''frontend'', ''human'']),
     (''electron'', [''project'', ''frontend'', ''human'']),
     (''tauri'', [''project'', ''frontend'', ''human'']),
     (''terraform'', [''project'', ''human'']),
     (''kubernetes'', [''project'', ''human'']),
     (''docker'', [''project'', ''human'']),
     (''infrastructure'', [''project'', ''human'']),
     (''documentation'', [''project'', ''human'']),
     (''cookbook'', [''project'', ''human''])]"

definition AI_TYPE_TO_FAF_TYPE :: "(string \<times> string) list" where
  "AI_TYPE_TO_FAF_TYPE =
    [(''cli'', ''cli''),
     (''library'', ''library''),
     (''web-app'', ''frontend''),
     (''api'', ''backend-api''),
     (''mobile-app'', ''mobile''),
     (''desktop-app'', ''desktop''),
     (''framework'', ''library''),
     (''tool'', ''cli''),
     (''plugin'', ''library''),
     (''data-science'', ''data-science''),
     (''devops'', ''infrastructure'')]"

text \<open>
  \<^verbatim>\<open>getApplicableSlots\<close>: the categories of the type, all five for a type that is not a
  key of the table; then the slots of \<^verbatim>\<open>SLOT_CATEGORY_MAP\<close>, in key order, whose
  category is among them. Keys are looked up among the table's own entries.
\<close>

definition categoriesOf :: "string \<Rightarrow> string list" where
  "categoriesOf projectType =
     (case map_of TYPE_APPLICABLE_CATEGORIES projectType of
        Some cs \<Rightarrow> cs
      | None \<Rightarrow> [''project'', ''frontend'', ''backend'', ''universal'', ''human''])"

definition slotInCategories :: "string list \<Rightarrow> string \<Rightarrow> bool" where
  "slotInCategories categories slot =
     (case map_of SLOT_CATEGORY_MAP slot of
        Some c \<Rightarrow> c \<in> set categories
      | None \<Rightarrow> False)"

definition getApplicableSlots :: "string \<Rightarrow> string list" where
  "getApplicableSlots projectType =
     filter (slotInCategories (categoriesOf projectType)) (map fst SLOT_CATEGORY_MAP)"

definition technicalSlots :: "string list" where
  "technicalSlots =
    [''project_name'', ''project_goal'', ''main_language'', ''framework'',
     ''backend'', ''server'', ''api_type'', ''database'', ''hosting'',
     ''cicd'', ''build_tool'', ''package_manager'', ''test_framework'', ''linter'']"

definition humanSlots :: "string list" where
  "humanSlots = [''who'', ''what'', ''why'', ''where'', ''when'', ''how'']"

section \<open>Type inference\<close>

text \<open>
  \<^verbatim>\<open>inferProjectType\<close>: the AI suggestion, then the framework detector, then the primary
  language, then the type the caller passed, then fullstack.
\<close>

definition isType :: "string \<Rightarrow> bool" where
  "isType t = (map_of TYPE_APPLICABLE_CATEGORIES t \<noteq> None)"

definition isSpace :: "char \<Rightarrow> bool" where
  "isSpace c = ((of_char c :: nat) \<in> {9, 10, 11, 12, 13, 32})"

text \<open>\<^verbatim>\<open>s.replace(/\s+/g, '-')\<close>: every maximal run of whitespace becomes one hyphen.\<close>

fun replaceRuns :: "bool \<Rightarrow> string \<Rightarrow> string" where
  "replaceRuns inRun [] = []"
| "replaceRuns inRun (c # cs) =
     (if isSpace c then (if inRun then replaceRuns True cs else CHR ''-'' # replaceRuns True cs)
      else c # replaceRuns False cs)"

definition fromAi :: "jsval \<Rightarrow> string option" where
  "fromAi aiProjectType =
     (case aiProjectType of
        JStr a \<Rightarrow>
          if a = [] then None
          else (case map_of AI_TYPE_TO_FAF_TYPE a of
                  Some mapped \<Rightarrow>
                    if isType mapped then Some mapped
                    else if isType a then Some a else None
                | None \<Rightarrow> if isType a then Some a else None)
      | _ \<Rightarrow> None)"

definition fromFramework :: "detection_result option \<Rightarrow> string option" where
  "fromFramework fr =
     (case fr of
        None \<Rightarrow> None
      | Some r \<Rightarrow>
          if fw_framework r = [] then None
          else (let fw = replaceRuns False (toLowerCase (fw_framework r))
                in if isType fw then Some fw else None))"

definition inferProjectType ::
  "local_scan_result \<Rightarrow> jsval \<Rightarrow> detection_result option \<Rightarrow> string option \<Rightarrow> string" where
  "inferProjectType scan aiProjectType fr originalType =
     (case fromAi aiProjectType of
        Some t \<Rightarrow> t
      | None \<Rightarrow>
          (case fromFramework fr of
             Some t \<Rightarrow> t
           | None \<Rightarrow>
               if primaryLanguage scan \<in> set [''C'', ''C++'', ''Rust'', ''Go'', ''Zig''] then ''library''
               else (case originalType of
                       Some t \<Rightarrow> if t \<noteq> [] \<and> isType t then t else ''fullstack''
                     | None \<Rightarrow> ''fullstack'')))"

section \<open>Filling the context slots (generateFafFromProject, lines 352-706)\<close>

text \<open>
  Each statement that writes \<^verbatim>\<open>contextSlotsFilled\<close> is one step, a function on the slot
  map; the steps are listed in source order and run from the empty map. The three
  shapes of write in the source:
  \<^item> \<^verbatim>\<open>slots[k] = v\<close> is \<open>assign\<close>;
  \<^item> \<^verbatim>\<open>if (v) slots[k] = v\<close> is \<open>setIfTruthy\<close>;
  \<^item> \<^verbatim>\<open>if (v && !slots[k]) slots[k] = v\<close> is \<open>fillIfEmpty\<close>;
  \<^item> \<^verbatim>\<open>if (!slots[k]) slots[k] = v\<close> is \<open>assignIfEmpty\<close>.
\<close>

definition assign :: "string \<Rightarrow> jsval \<Rightarrow> slots \<Rightarrow> slots" where
  "assign k v m = m(k \<mapsto> v)"

definition setIfTruthy :: "string \<Rightarrow> jsval \<Rightarrow> slots \<Rightarrow> slots" where
  "setIfTruthy k v m = (if truthy v then m(k \<mapsto> v) else m)"

definition fillIfEmpty :: "string \<Rightarrow> jsval \<Rightarrow> slots \<Rightarrow> slots" where
  "fillIfEmpty k v m = (if truthy v \<and> \<not> filled m k then m(k \<mapsto> v) else m)"

definition assignIfEmpty :: "string \<Rightarrow> jsval \<Rightarrow> slots \<Rightarrow> slots" where
  "assignIfEmpty k v m = (if \<not> filled m k then m(k \<mapsto> v) else m)"

definition onlyIf :: "bool \<Rightarrow> (slots \<Rightarrow> slots) \<Rightarrow> slots \<Rightarrow> slots" where
  "onlyIf c f m = (if c then f m else m)"

text \<open>Quick mode data (lines 355-369).\<close>

definition quickModeSteps :: "gen_options \<Rightarrow> (slots \<Rightarrow> slots) list" where
  "quickModeSteps options =
     [setIfTruthy ''project_goal'' (ofOpt (opt_projectGoal options)),
      setIfTruthy ''project_name'' (ofOpt (opt_projectName options)),
      setIfTruthy ''main_language'' (ofOpt (opt_mainLanguage options)),
      onlyIf (truthy (ofOpt (opt_framework options)) \<and> opt_framework options \<noteq> Some ''none'')
        (assign ''framework'' (ofOpt (opt_framework options))),
      onlyIf (truthy (ofOpt (opt_hosting options)) \<and> opt_hosting options \<noteq> Some ''cloud'')
        (assign ''hosting'' (ofOpt (opt_hosting options)))]"

text \<open>Local scanner results and framework detection (lines 373-388).\<close>

definition scannerSteps :: "local_scan_result \<Rightarrow> (slots \<Rightarrow> slots) list" where
  "scannerSteps scan =
     [onlyIf (primaryLanguage scan \<noteq> [] \<and> primaryLanguage scan \<noteq> ''Unknown'')
        (assign ''main_language'' (JStr (primaryLanguage scan)))]"

definition frameworkSteps :: "detection_result option \<Rightarrow> (slots \<Rightarrow> slots) list" where
  "frameworkSteps fr =
     (case fr of
        None \<Rightarrow> []
      | Some r \<Rightarrow>
          if fw_framework r \<noteq> ''Unknown'' then
            [assignIfEmpty ''framework'' (JStr (fw_framework r)),
             fillIfEmpty ''main_language'' (ofOpt (fw_language r)),
             setIfTruthy ''package_manager'' (ofOpt (fw_ecosystem r))]
          else [])"

text \<open>
  AI-assisted README analysis (lines 392-406): attempted when the scan found a README,
  by reading the literal path README.md under the project root; a failed read or a
  failed analysis leaves \<^verbatim>\<open>aiResult\<close> null.
\<close>

definition rootString :: "gen_options \<Rightarrow> string" where
  "rootString options = (case opt_projectRoot options of JStr s \<Rightarrow> s | _ \<Rightarrow> [])"

definition aiResult :: "world \<Rightarrow> gen_options \<Rightarrow> ai_readme_result option" where
  "aiResult w options =
     (if readme_exists (readme (scanResult w)) then
        (case readFile (rootFiles w) ''README.md'' of
           None \<Rightarrow> None
         | Some readmeContent \<Rightarrow>
             analyzeReadmeWithAI w readmeContent (languageStrings (scanResult w))
               (if truthy (ofOpt (readme_name (readme (scanResult w))))
                then the (readme_name (readme (scanResult w)))
                else basename (rootString options)))
      else None)"

definition aiSteps :: "ai_readme_result option \<Rightarrow> (slots \<Rightarrow> slots) list" where
  "aiSteps ai =
     (case ai of
        None \<Rightarrow> []
      | Some r \<Rightarrow>
          [fillIfEmpty ''project_goal'' (JStr (ai_description r)),
           fillIfEmpty ''who'' (ofOpt (ai_who r)),
           fillIfEmpty ''what'' (ofOpt (ai_what r)),
           fillIfEmpty ''why'' (ofOpt (ai_why r)),
           fillIfEmpty ''where'' (ofOpt (ai_where r)),
           fillIfEmpty ''when'' (ofOpt (ai_when r)),
           fillIfEmpty ''how'' (ofOpt (ai_how r)),
           setIfTruthy ''_ai_project_type'' (ofOpt (ai_projectType r))])"

text \<open>Local README-derived context (lines 439-464).\<close>

definition readmeSteps :: "readme_context \<Rightarrow> (slots \<Rightarrow> slots) list" where
  "readmeSteps r =
     (if readme_exists r then
        [fillIfEmpty ''project_name'' (ofOpt (readme_name r)),
         fillIfEmpty ''project_goal'' (ofOpt (readme_description r)),
         fillIfEmpty ''who'' (ofOpt (readme_who r)),
         fillIfEmpty ''what'' (ofOpt (readme_what r)),
         fillIfEmpty ''why'' (ofOpt (readme_why r)),
         fillIfEmpty ''where'' (ofOpt (readme_where r)),
         fillIfEmpty ''when'' (ofOpt (readme_when r)),
         fillIfEmpty ''how'' (ofOpt (readme_how r))]
      else [])"

text \<open>License, CI/CD, test, Docker and build tool detection (lines 467-502).\<close>

definition dockerHosting :: "slots \<Rightarrow> slots" where
  "dockerHosting m =
     m(''hosting'' \<mapsto> (if filled m ''hosting'' then slotValue m ''hosting'' else JStr ''Docker''))"

definition buildToolStep :: "local_scan_result \<Rightarrow> slots \<Rightarrow> slots" where
  "buildToolStep scan m =
     (if \<not> filled m ''build_tool'' then
        (let topFiles = map fst (topLevelStructure scan)
         in if ''CMakeLists.txt'' \<in> set topFiles then assign ''build_tool'' (JStr ''CMake'') m
            else if ''Makefile'' \<in> set topFiles then assign ''build_tool'' (JStr ''Make'') m
            else if ''meson.build'' \<in> set topFiles then assign ''build_tool'' (JStr ''Meson'') m
            else if ''build.gradle'' \<in> set topFiles \<or> ''build.gradle.kts'' \<in> set topFiles
              then assign ''build_tool'' (JStr ''Gradle'') m
            else if ''pom.xml'' \<in> set topFiles then assign ''build_tool'' (JStr ''Maven'') m
            else if ''build.zig'' \<in> set topFiles then assign ''build_tool'' (JStr ''Zig Build'') m
            else m)
      else m)"

definition detectorSteps :: "local_scan_result \<Rightarrow> (slots \<Rightarrow> slots) list" where
  "detectorSteps scan =
     [onlyIf (hasLicense scan \<and> truthy (ofOpt (licenseName scan)))
        (assign ''license'' (ofOpt (licenseName scan))),
      onlyIf (hasCiCd scan \<and> truthy (ofOpt (cicdPlatform scan)))
        (assign ''cicd'' (ofOpt (cicdPlatform scan))),
      onlyIf (hasTests scan) (assign ''test_framework'' (JStr ''Detected (tests/ directory)'')),
      onlyIf (hasDocker scan) dockerHosting,
      buildToolStep scan]"

text \<open>Framework detector as a fallback (line 505).\<close>

definition frameworkFallbackSteps :: "detection_result option \<Rightarrow> (slots \<Rightarrow> slots) list" where
  "frameworkFallbackSteps fr =
     (case fr of
        None \<Rightarrow> []
      | Some r \<Rightarrow> [assignIfEmpty ''framework'' (JStr (fw_framework r))])"

text \<open>Championship context extraction (lines 510-536).\<close>

definition fabSteps :: "fab_context option \<Rightarrow> (slots \<Rightarrow> slots) list" where
  "fabSteps c =
     (case c of
        None \<Rightarrow> []
      | Some ctx \<Rightarrow>
          [fillIfEmpty ''project_name'' (ofOpt (ctx_projectName ctx)),
           fillIfEmpty ''project_goal'' (ofOpt (ctx_projectGoal ctx)),
           setIfTruthy ''main_language'' (ofOpt (ctx_mainLanguage ctx)),
           setIfTruthy ''framework'' (ofOpt (ctx_framework ctx)),
           setIfTruthy ''backend'' (ofOpt (ctx_backend ctx)),
           setIfTruthy ''server'' (ofOpt (ctx_server ctx)),
           setIfTruthy ''api_type'' (ofOpt (ctx_apiType ctx)),
           setIfTruthy ''database'' (ofOpt (ctx_database ctx)),
           setIfTruthy ''hosting'' (ofOpt (ctx_hosting ctx)),
           setIfTruthy ''cicd'' (ofOpt (ctx_cicd ctx)),
           setIfTruthy ''build_tool'' (ofOpt (ctx_buildTool ctx)),
           setIfTruthy ''package_manager'' (ofOpt (ctx_packageManager ctx)),
           setIfTruthy ''test_framework'' (ofOpt (ctx_testFramework ctx)),
           setIfTruthy ''linter'' (ofOpt (ctx_linter ctx)),
           fillIfEmpty ''who'' (ofOpt (ctx_targetUser ctx)),
           fillIfEmpty ''what'' (ofOpt (ctx_coreProblem ctx)),
           fillIfEmpty ''why'' (ofOpt (ctx_missionPurpose ctx)),
           fillIfEmpty ''where'' (ofOpt (ctx_deploymentMarket ctx)),
           fillIfEmpty ''when'' (ofOpt (ctx_timeline ctx)),
           fillIfEmpty ''how'' (ofOpt (ctx_approach ctx))])"

text \<open>Relentless human context extraction (lines 540-559).\<close>

definition relentlessSteps :: "human_context option \<Rightarrow> (slots \<Rightarrow> slots) list" where
  "relentlessSteps h =
     (case h of
        None \<Rightarrow> []
      | Some hc \<Rightarrow>
          [fillIfEmpty ''who'' (ofOpt (hc_who hc)),
           fillIfEmpty ''what'' (ofOpt (hc_what hc)),
           fillIfEmpty ''why'' (ofOpt (hc_why hc)),
           fillIfEmpty ''where'' (ofOpt (hc_where hc)),
           fillIfEmpty ''when'' (ofOpt (hc_when hc)),
           fillIfEmpty ''how'' (ofOpt (hc_how hc))])"

text \<open>Rust CLI detection from Cargo.toml (lines 568-619).\<close>

definition isRustCLI :: "world \<Rightarrow> bool" where
  "isRustCLI w =
     (case readFile (rootFiles w) ''Cargo.toml'' of
        None \<Rightarrow> False
      | Some cargoContent \<Rightarrow>
          strIncludes cargoContent ''[bin]'' \<or> strIncludes cargoContent ''clap''
          \<or> strIncludes cargoContent ''structopt'' \<or> strIncludes cargoContent ''argh'')"

definition cargoTomlName :: "world \<Rightarrow> string option" where
  "cargoTomlName w =
     (case readFile (rootFiles w) ''Cargo.toml'' of
        None \<Rightarrow> None
      | Some cargoContent \<Rightarrow> cargoNameMatch w cargoContent)"

definition cargoTomlDescription :: "world \<Rightarrow> string option" where
  "cargoTomlDescription w =
     (case readFile (rootFiles w) ''Cargo.toml'' of
        None \<Rightarrow> None
      | Some cargoContent \<Rightarrow> cargoDescMatch w cargoContent)"

definition rustSteps :: "world \<Rightarrow> (slots \<Rightarrow> slots) list" where
  "rustSteps w =
     (if isRustCLI w then
        [assign ''framework'' (JStr ''CLI''),
         assign ''api_type'' (JStr ''CLI''),
         assign ''hosting'' (JStr ''crates.io / Binary distribution''),
         assign ''backend'' (JStr ''Rust''),
         assign ''main_language'' (JStr ''Rust''),
         assign ''build_tool'' (JStr ''Cargo''),
         assign ''package_manager'' (JStr ''Cargo''),
         assign ''runtime'' (JStr ''Native binary''),
         assign ''css_framework'' (JStr ''N/A (CLI)''),
         assign ''ui_library'' (JStr ''N/A (CLI)''),
         assign ''database'' (JStr ''N/A (CLI)''),
         assign ''frontend'' (JStr ''N/A (CLI)''),
         fillIfEmpty ''project_name'' (ofOpt (cargoTomlName w)),
         fillIfEmpty ''project_goal'' (ofOpt (cargoTomlDescription w))]
      else [])"

text \<open>
  package.json data (lines 241-251) and Node.js CLI detection (lines 562-595). The
  property reads on \<^verbatim>\<open>packageData\<close> and the optional calls of \<^verbatim>\<open>includes\<close> are outside
  every try/catch.
\<close>

definition packageData :: "world \<Rightarrow> jsval" where
  "packageData w = (case packageJson w of Some (Some v) \<Rightarrow> v | _ \<Rightarrow> JObj [])"

definition depsOf :: "jsval \<Rightarrow> error + (string \<Rightarrow> jsval)" where
  "depsOf pd =
     (case getProp pd ''dependencies'' of
        Inl e \<Rightarrow> Inl e
      | Inr dependencies \<Rightarrow>
          (case getProp pd ''devDependencies'' of
             Inl e \<Rightarrow> Inl e
           | Inr devDependencies \<Rightarrow> Inr (mergeDeps dependencies devDependencies)))"

definition isNodeCLI :: "jsval \<Rightarrow> (string \<Rightarrow> jsval) \<Rightarrow> error + bool" where
  "isNodeCLI pd deps =
     (if truthy (property pd ''bin'') then Inr True
      else (case optIncludes (property pd ''name'') ''cli'' of
        Inl e \<Rightarrow> Inl e
      | Inr a \<Rightarrow> if truthy a then Inr True
      else (case optIncludes (property pd ''keywords'') ''cli'' of
        Inl e \<Rightarrow> Inl e
      | Inr b \<Rightarrow> if truthy b then Inr True
      else (case optIncludes (property pd ''keywords'') ''command-line'' of
        Inl e \<Rightarrow> Inl e
      | Inr c \<Rightarrow>
          Inr (truthy c \<or> truthy (deps ''commander'') \<or> truthy (deps ''yargs'')
               \<or> truthy (deps ''oclif'') \<or> truthy (deps ''inquirer''))))))"

definition isBunProject :: "world \<Rightarrow> bool" where
  "isBunProject w = access (rootFiles w) ''bun.lockb''"

definition enginesNode :: "jsval \<Rightarrow> jsval" where
  "enginesNode pd =
     (case property pd ''engines'' of
        Undefined \<Rightarrow> Undefined
      | Null \<Rightarrow> Undefined
      | engines \<Rightarrow> property engines ''node'')"

definition nodeSteps :: "world \<Rightarrow> (string \<Rightarrow> jsval) \<Rightarrow> bool \<Rightarrow> (slots \<Rightarrow> slots) list" where
  "nodeSteps w deps nodeCLI =
     (if nodeCLI then
        [assign ''framework'' (JStr ''CLI''),
         assign ''api_type'' (JStr ''CLI''),
         assign ''hosting'' (JStr ''npm registry''),
         assign ''backend'' (JStr ''Node.js''),
         (if truthy (deps ''chalk'') then assign ''css_framework'' (JStr ''chalk (terminal colors)'')
          else if truthy (deps ''colors'') then assign ''css_framework'' (JStr ''colors'')
          else if truthy (deps ''ora'') then assign ''css_framework'' (JStr ''ora'')
          else id),
         (if truthy (deps ''inquirer'') then assign ''ui_library'' (JStr ''inquirer (interactive prompts)'')
          else if truthy (deps ''prompts'') then assign ''ui_library'' (JStr ''prompts'')
          else if truthy (deps ''enquirer'') then assign ''ui_library'' (JStr ''enquirer'')
          else id),
         (if truthy (deps ''commander'') then assign ''cli_framework'' (JStr ''commander'')
          else if truthy (deps ''yargs'') then assign ''cli_framework'' (JStr ''yargs'')
          else if truthy (deps ''oclif'') then assign ''cli_framework'' (JStr ''oclif'')
          else id)]
        @ (if isBunProject w then
             [assign ''runtime'' (JStr ''Bun''), assign ''package_manager'' (JStr ''Bun'')]
           else if truthy (enginesNode (packageData w)) then
             [assign ''runtime'' (JStr (''Node.js '' @ jsToString w (enginesNode (packageData w))))]
           else [assign ''runtime'' (JStr ''Node.js v16+'')])
        @ [onlyIf (truthy (deps ''typescript'') \<or> truthy (deps ''@types/node''))
             (assign ''build_tool'' (JStr ''TypeScript (tsc)'')),
           (if truthy (deps ''jest'') then assign ''test_framework'' (JStr ''Jest'')
            else if truthy (deps ''mocha'') then assign ''test_framework'' (JStr ''Mocha'')
            else if truthy (deps ''vitest'') then assign ''test_framework'' (JStr ''Vitest'')
            else id),
           onlyIf (access (rootFiles w) ''.github/workflows'')
             (assign ''cicd'' (JStr ''GitHub Actions''))]
      else [])"

text \<open>Bun detection, package.json, pyproject.toml and README data (lines 676-706).\<close>

definition manifestSteps :: "world \<Rightarrow> (slots \<Rightarrow> slots) list" where
  "manifestSteps w =
     (if isBunProject w then
        [assign ''runtime'' (JStr ''Bun''), assign ''package_manager'' (JStr ''Bun'')]
      else [])
     @ [fillIfEmpty ''project_name'' (property (packageData w) ''name''),
        fillIfEmpty ''project_goal'' (property (packageData w) ''description''),
        fillIfEmpty ''project_name'' (ofOpt (py_name (pyprojectData w))),
        fillIfEmpty ''project_goal'' (ofOpt (py_description (pyprojectData w)))]"

definition readmeDataSteps :: "readme_context \<Rightarrow> (slots \<Rightarrow> slots) list" where
  "readmeDataSteps r =
     [fillIfEmpty ''project_name'' (if readme_exists r then ofOpt (readme_name r) else Undefined),
      fillIfEmpty ''project_goal'' (if readme_exists r then ofOpt (readme_description r) else Undefined),
      fillIfEmpty ''who'' (if readme_exists r then ofOpt (readme_who r) else Undefined)]"

definition slotSteps ::
  "world \<Rightarrow> gen_options \<Rightarrow> (string \<Rightarrow> jsval) \<Rightarrow> bool \<Rightarrow> (slots \<Rightarrow> slots) list" where
  "slotSteps w options deps nodeCLI =
     quickModeSteps options
     @ scannerSteps (scanResult w)
     @ frameworkSteps (frameworkResult w)
     @ aiSteps (aiResult w options)
     @ readmeSteps (readme (scanResult w))
     @ detectorSteps (scanResult w)
     @ frameworkFallbackSteps (frameworkResult w)
     @ fabSteps (fab_ctx (fabAnalysis w))
     @ relentlessSteps (humanContext w)
     @ rustSteps w
     @ nodeSteps w deps nodeCLI
     @ manifestSteps w
     @ readmeDataSteps (readme (scanResult w))"

definition runSteps :: "(slots \<Rightarrow> slots) list \<Rightarrow> slots" where
  "runSteps steps = foldl (\<lambda>m step. step m) Map.empty steps"

definition contextSlotsFilled ::
  "world \<Rightarrow> gen_options \<Rightarrow> (string \<Rightarrow> jsval) \<Rightarrow> bool \<Rightarrow> slots" where
  "contextSlotsFilled w options deps nodeCLI = runSteps (slotSteps w options deps nodeCLI)"


section \<open>The slot scorer (generateFafFromProject, lines 720-803)\<close>

text \<open>First pass: count applicable slots.\<close>

definition applicableTechCount :: "string \<Rightarrow> nat" where
  "applicableTechCount inferredType =
     length (filter (\<lambda>slot. slot \<in> set (getApplicableSlots inferredType)) technicalSlots)"

definition applicableHumanCount :: "string \<Rightarrow> nat" where
  "applicableHumanCount inferredType =
     length (filter (\<lambda>slot. slot \<in> set (getApplicableSlots inferredType)) humanSlots)"

definition maxSlotPoints :: rat where
  "maxSlotPoints = 86"

definition applicableMaxRaw :: "string \<Rightarrow> nat" where
  "applicableMaxRaw inferredType =
     applicableTechCount inferredType * 4 + applicableHumanCount inferredType * 5"

definition slotScale :: "string \<Rightarrow> rat" where
  "slotScale inferredType =
     (if applicableMaxRaw inferredType > 0
      then maxSlotPoints / of_nat (applicableMaxRaw inferredType) else 1)"

text \<open>Second pass: the filled applicable slots, each adding its scaled points.\<close>

definition technicalFilled :: "string \<Rightarrow> slots \<Rightarrow> nat" where
  "technicalFilled inferredType m =
     length (filter (\<lambda>slot. slot \<in> set (getApplicableSlots inferredType) \<and> filled m slot)
       technicalSlots)"

definition humanFilled :: "string \<Rightarrow> slots \<Rightarrow> nat" where
  "humanFilled inferredType m =
     length (filter (\<lambda>slot. slot \<in> set (getApplicableSlots inferredType) \<and> filled m slot)
       humanSlots)"

definition slotPoints :: "string \<Rightarrow> slots \<Rightarrow> rat" where
  "slotPoints inferredType m =
     of_nat (technicalFilled inferredType m) * (4 * slotScale inferredType)
     + of_nat (humanFilled inferredType m) * (5 * slotScale inferredType)"

definition totalApplicable :: "string \<Rightarrow> nat" where
  "totalApplicable inferredType =
     applicableTechCount inferredType + applicableHumanCount inferredType"

definition totalFilled :: "string \<Rightarrow> slots \<Rightarrow> nat" where
  "totalFilled inferredType m = technicalFilled inferredType m + humanFilled inferredType m"

definition naSlotCount :: "string \<Rightarrow> int" where
  "naSlotCount inferredType = 20 - int (totalApplicable inferredType)"

text \<open>Quality bonuses from FAB-FORMATS, intelligence depth bonus, TypeScript bonus.\<close>

definition gradeBonus :: "quality_metrics \<Rightarrow> rat" where
  "gradeBonus q =
     (if highestGrade q = ''EXCEPTIONAL'' then 20
      else if highestGrade q = ''PROFESSIONAL'' then 15
      else if highestGrade q = ''GOOD'' then 10
      else if highestGrade q = ''BASIC'' then 5
      else 0)"

definition depthBonus :: "quality_metrics \<Rightarrow> rat" where
  "depthBonus q =
     (if intelligenceDepth q > 80 then 15
      else if intelligenceDepth q > 60 then 10
      else if intelligenceDepth q > 40 then 5
      else 0)"

definition tsBonus :: "bool option \<Rightarrow> rat" where
  "tsBonus ts =
     (case ts of
        None \<Rightarrow> 0
      | Some strictMode \<Rightarrow> 5 + (if strictMode then 5 else 0))"

definition bonusPoints :: "quality_metrics \<Rightarrow> bool option \<Rightarrow> rat" where
  "bonusPoints q ts = gradeBonus q + depthBonus q + tsBonus ts"

definition enhancedScore :: "string \<Rightarrow> slots \<Rightarrow> quality_metrics \<Rightarrow> bool option \<Rightarrow> rat" where
  "enhancedScore inferredType m q ts =
     slotPoints inferredType m + bonusPoints q ts"

text \<open>Cap at 99. \<^verbatim>\<open>Math.round x\<close> is \<open>\<lfloor>x + 1/2\<rfloor>\<close>, which is \<^const>\<open>round\<close>.\<close>

definition fafScore :: "string \<Rightarrow> slots \<Rightarrow> quality_metrics \<Rightarrow> bool option \<Rightarrow> int" where
  "fafScore inferredType m q ts =
     min (round (enhancedScore inferredType m q ts)) 99"

definition slotBasedPercentage :: "string \<Rightarrow> slots \<Rightarrow> int" where
  "slotBasedPercentage inferredType m =
     (if totalApplicable inferredType > 0
      then round ((of_nat (totalFilled inferredType m) / of_nat (totalApplicable inferredType)) * (100::rat))
      else 0)"

section \<open>generateFafFromProject\<close>

record faf_data =
  out_projectName :: jsval
  out_fafScore :: int
  out_slotBasedPercentage :: int
  out_projectType :: string
  out_totalSlots :: nat
  out_naSlots :: int
  out_slots :: slots

definition validProjectRoot :: "jsval \<Rightarrow> bool" where
  "validProjectRoot projectRoot = (case projectRoot of JStr s \<Rightarrow> s \<noteq> [] | _ \<Rightarrow> False)"

definition fafData :: "world \<Rightarrow> gen_options \<Rightarrow> slots \<Rightarrow> faf_data" where
  "fafData w options m =
     (let inferredType =
            inferProjectType (scanResult w) (slotValue m ''_ai_project_type'')
              (frameworkResult w) (opt_projectType options)
      in \<lparr>out_projectName =
            (if filled m ''project_name'' then slotValue m ''project_name''
             else JStr (basename (rootString options))),
          out_fafScore =
            fafScore inferredType m (qualityMetrics (fabAnalysis w)) (tsContext w),
          out_slotBasedPercentage = slotBasedPercentage inferredType m,
          out_projectType = inferredType,
          out_totalSlots = totalApplicable inferredType,
          out_naSlots = naSlotCount inferredType,
          out_slots = m\<rparr>)"

definition generateFafFromProject :: "world \<Rightarrow> gen_options \<Rightarrow> error + faf_data" where
  "generateFafFromProject w options =
     (if \<not> validProjectRoot (opt_projectRoot options) then Inl InvalidProjectRoot
      else (case depsOf (packageData w) of
        Inl e \<Rightarrow> Inl e
      | Inr deps \<Rightarrow>
          (case isNodeCLI (packageData w) deps of
             Inl e \<Rightarrow> Inl e
           | Inr nodeCLI \<Rightarrow>
               Inr (fafData w options (contextSlotsFilled w options deps nodeCLI)))))"

section \<open>Notions used to state the generator properties\<close>



text \<open>
  A project with nothing in it, and the default options: the inputs that the concrete
  runs below vary.
\<close>

definition noFiles :: root_files where
  "noFiles name = None"

definition noAi :: "string \<Rightarrow> string list \<Rightarrow> string \<Rightarrow> ai_readme_result option" where
  "noAi readmeContent langs name = None"

definition noMatch :: "string \<Rightarrow> string option" where
  "noMatch content = None"

definition stringOnly :: "jsval \<Rightarrow> string" where
  "stringOnly v = (case v of JStr s \<Rightarrow> s | _ \<Rightarrow> [])"

definition emptyContext :: fab_context where
  "emptyContext =
     \<lparr>ctx_projectName = None, ctx_projectGoal = None, ctx_mainLanguage = None,
      ctx_framework = None, ctx_backend = None, ctx_server = None, ctx_apiType = None,
      ctx_database = None, ctx_hosting = None, ctx_cicd = None, ctx_buildTool = None,
      ctx_packageManager = None, ctx_testFramework = None, ctx_linter = None,
      ctx_targetUser = None, ctx_coreProblem = None, ctx_missionPurpose = None,
      ctx_deploymentMarket = None, ctx_timeline = None, ctx_approach = None\<rparr>"

definition emptyScan :: local_scan_result where
  "emptyScan =
     \<lparr>totalFiles = 0, totalBytes = 0, languages = [], primaryLanguage = ''Unknown'',
      languageStrings = [], readme = noReadme, hasLicense = False, licenseName = None,
      hasTests = False, hasCiCd = False, cicdPlatform = None, hasDocker = False,
      topLevelStructure = []\<rparr>"

definition emptyProject :: world where
  "emptyProject =
     \<lparr>scanResult = emptyScan, frameworkResult = None, rootFiles = noFiles,
      packageJson = None, pyprojectData = \<lparr>py_name = None, py_description = None\<rparr>,
      fabAnalysis =
        \<lparr>fab_ctx = Some emptyContext,
         qualityMetrics = \<lparr>highestGrade = ''MINIMAL'', intelligenceDepth = 0, filesCovered = 0\<rparr>\<rparr>,
      humanContext = None, tsContext = None, analyzeReadmeWithAI = noAi,
      cargoNameMatch = noMatch, cargoDescMatch = noMatch, jsToString = stringOnly\<rparr>"

definition defaultOptions :: gen_options where
  "defaultOptions =
     \<lparr>opt_projectType = None, opt_projectRoot = JStr ''/proj'', opt_projectName = None,
      opt_projectGoal = None, opt_mainLanguage = None, opt_framework = None,
      opt_hosting = None\<rparr>"



section \<open>Properties of the scanner\<close>

lemma d_not_skipped: "\<not> (''d'' \<in> set SKIP_DIRS \<or> startsWith ''d'' ''.'')"
  by (simp add: SKIP_DIRS_def startsWith_def)

lemma walk_deepTree: "walkDirectory p (deepTree n) = [(deepPath p n, 1)]"
proof (induction n arbitrary: p)
  case 0
  show ?case by simp
next
  case (Suc n)
  have "isDirectory (deepTree n)" by (cases n) simp_all
  then show ?case using Suc d_not_skipped by simp
qed

lemma walkDirectory_entries:
  "walkDirectory dirPath (Directory entries) = concat (map (walkEntry dirPath) entries)"
  by (auto simp: walkEntry_def split: fs_node.split option.split
      intro!: arg_cong [where f = concat] map_cong)

lemma walkEntry_symlink: "isSymbolicLink (snd e) \<Longrightarrow> walkEntry p e = []"
  by (cases "snd e") (simp_all add: walkEntry_def)

lemma isDirectory_withoutSymlinks: "isDirectory (withoutSymlinks n) = isDirectory n"
  by (cases n) simp_all

lemma walk_withoutSymlinks: "walkDirectory p (withoutSymlinks t) = walkDirectory p t"
proof (induction t arbitrary: p)
  case (Directory entries)
  have step: "walkEntry p (fst e, withoutSymlinks (snd e)) = walkEntry p e"
    if "e \<in> set entries" for e
  proof (cases "isDirectory (snd e)")
    case True
    have "walkDirectory q (withoutSymlinks (snd e)) = walkDirectory q (snd e)" for q
      using Directory.IH [of e "snd e" q] that by (cases e) simp
    then show ?thesis
      using True by (simp add: walkEntry_def isDirectory_withoutSymlinks)
  next
    case False
    then have eq: "withoutSymlinks (snd e) = snd e"
      by (cases "snd e") simp_all
    show ?thesis
      unfolding walkEntry_def by (simp add: eq split: fs_node.split option.split)
  qed
  have "concat (map (walkEntry p) (map (\<lambda>e. (fst e, withoutSymlinks (snd e)))
            (filter (\<lambda>e. \<not> isSymbolicLink (snd e)) es))) = concat (map (walkEntry p) es)"
    if "set es \<subseteq> set entries" for es
    using that
  proof (induction es)
    case Nil
    show ?case by simp
  next
    case (Cons e es)
    then show ?case
      by (cases "isSymbolicLink (snd e)") (simp_all add: walkEntry_symlink step)
  qed
  then show ?case
    by (simp only: withoutSymlinks.simps walkDirectory_entries)
qed simp_all

lemma length_walkEntry: 
  assumes "\<And>q. length (walkDirectory q (snd e)) \<le> regularFiles (snd e)"
  shows "length (walkEntry p e) \<le> regularFiles (snd e)"
  using assms by (cases "snd e") (auto simp: walkEntry_def split: option.splits)

lemma length_walkDirectory: "length (walkDirectory p t) \<le> regularFiles t"
proof (induction t arbitrary: p)
  case (Directory entries)
  have "length (concat (map (walkEntry p) es)) \<le> sum_list (map (\<lambda>e. regularFiles (snd e)) es)"
    if "set es \<subseteq> set entries" for es
    using that
  proof (induction es)
    case Nil
    show ?case by simp
  next
    case (Cons e es)
    have "length (walkDirectory q (snd e)) \<le> regularFiles (snd e)" for q
      using Directory.IH [of e "snd e" q] Cons.prems by (cases e) simp
    then have "length (walkEntry p e) \<le> regularFiles (snd e)"
      by (rule length_walkEntry)
    then show ?case using Cons by simp
  qed
  then show ?case
    by (simp only: walkDirectory_entries regularFiles.simps)
qed simp_all

subsection \<open>Extension lookup\<close>

lemma lowerChar_dot: "lowerChar c = CHR ''.'' \<Longrightarrow> c = CHR ''.''"
proof (cases "(65::nat) \<le> of_char c \<and> of_char c \<le> (90::nat)")
  case True
  assume a: "lowerChar c = CHR ''.''"
  from True a have "char_of (of_char c + (32::nat)) = CHR ''.''"
    by (simp add: lowerChar_def)
  then have "(of_char (char_of (of_char c + (32::nat)) :: char) :: nat) = of_char (CHR ''.'')"
    by simp
  then have m: "(of_char c + (32::nat)) mod 256 = 46"
    by simp
  from True have "(of_char c + (32::nat)) < 256"
    by linarith
  then have "(of_char c + (32::nat)) mod 256 = of_char c + 32"
    by (rule mod_less)
  with m have "of_char c + (32::nat) = 46"
    by linarith
  with True show ?thesis by linarith
next
  case False
  assume "lowerChar c = CHR ''.''"
  with False show ?thesis by (auto simp: lowerChar_def)
qed

lemma extname_one_dot: "CHR ''.'' \<notin> set (tl (toLowerCase (extname p)))"
proof -
  have "CHR ''.'' \<notin> set (rev (takeWhile (\<lambda>c. c \<noteq> CHR ''.'') (rev b)))" for b
    using set_takeWhileD [of "CHR ''.''" "\<lambda>c. c \<noteq> CHR ''.''" "rev b"] by auto
  then have "CHR ''.'' \<notin> set (tl (extname p))"
    by (simp add: extname_def Let_def)
  moreover have "tl (toLowerCase (extname p)) = map lowerChar (tl (extname p))"
    by (simp add: toLowerCase_def map_tl)
  ultimately show ?thesis
  proof -
    assume no: "CHR ''.'' \<notin> set (tl (extname p))"
      and eq: "tl (toLowerCase (extname p)) = map lowerChar (tl (extname p))"
    show ?thesis
    proof
      assume "CHR ''.'' \<in> set (tl (toLowerCase (extname p)))"
      then obtain x where x: "x \<in> set (tl (extname p))" "lowerChar x = CHR ''.''"
        unfolding eq by auto
      then have "x = CHR ''.''" by (simp add: lowerChar_dot)
      with x no show False by simp
    qed
  qed
qed

lemma extname_never_min:
  "toLowerCase (extname p) \<noteq> ''.min.js'' \<and> toLowerCase (extname p) \<noteq> ''.min.css''"
  using extname_one_dot [of p] by auto

lemma scanState_scanFrom: "scanState projectRoot tree = scanFrom (walkDirectory projectRoot tree)"
  by (simp add: scanState_def scanFrom_def)

lemma callback_classify:
  "callback st v =
     (case classifyPath (fst v) of
        None \<Rightarrow> st
      | Some lang \<Rightarrow>
          st\<lparr>totalFiles := totalFiles st + 1,
             totalBytes := totalBytes st + snd v,
             languageBytes := addBytes lang (snd v) (languageBytes st)\<rparr>)"
  by (simp add: callback_def classifyPath_def Let_def)

lemma scanFrom_snoc: "scanFrom (vs @ [v]) = callback (scanFrom vs) v"
  by (simp add: scanFrom_def)

lemma firstSeen_snoc:
  "firstSeen (xs @ [x]) = (if x \<in> set xs then firstSeen xs else firstSeen xs @ [x])"
  by (simp add: firstSeen_def)

lemma set_firstSeen: "set (firstSeen xs) = set xs"
  by (simp add: firstSeen_def)


lemma keys_addBytes:
  "map fst (addBytes lang n es) =
     (if lang \<in> set (map fst es) then map fst es else map fst es @ [lang])"
  by (induction es) (fastforce simp: image_iff)+


lemma classifiedLanguages_snoc:
  "classifiedLanguages (vs @ [v]) =
     classifiedLanguages vs @ (case classifyPath (fst v) of None \<Rightarrow> [] | Some l \<Rightarrow> [l])"
  by (simp add: classifiedLanguages_def List.map_filter_def split: option.splits)

lemma keys_scanFrom:
  "map fst (languageBytes (scanFrom vs)) = firstSeen (classifiedLanguages vs)"
proof (induction vs rule: rev_induct)
  case Nil
  show ?case by (simp add: scanFrom_def classifiedLanguages_def firstSeen_def List.map_filter_def)
next
  case (snoc v vs)
  show ?case
  proof (cases "classifyPath (fst v)")
    case None
    then show ?thesis
      using snoc by (simp add: scanFrom_snoc callback_classify classifiedLanguages_snoc)
  next
    case (Some l)
    then show ?thesis
      using snoc set_firstSeen [of "classifiedLanguages vs"]
      by (simp add: scanFrom_snoc callback_classify classifiedLanguages_snoc
          keys_addBytes firstSeen_snoc)
  qed
qed


lemma set_classifiedLanguages:
  "l \<in> set (classifiedLanguages vs) \<longleftrightarrow> (\<exists>v \<in> set vs. classifyPath (fst v) = Some l)"
  by (force simp: classifiedLanguages_def List.map_filter_def image_iff)






lemma codeEntries_keys:
  "map fst (codeEntries (scanFrom vs)) =
     firstSeen (filter (\<lambda>l. l \<notin> set EXCLUDE_FROM_PERCENTAGES) (classifiedLanguages vs))"
proof -
  have "map fst (codeEntries (scanFrom vs)) =
      filter (\<lambda>l. l \<notin> set EXCLUDE_FROM_PERCENTAGES) (map fst (languageBytes (scanFrom vs)))"
    by (simp add: codeEntries_def filter_map comp_def)
  then show ?thesis
    by (simp add: keys_scanFrom firstSeen_def rev_filter remdups_filter)
qed

lemma codeEntries_empty:
  "codeEntries (scanFrom vs) = [] \<longleftrightarrow> filter isCodeFile vs = []"
proof -
  have "codeEntries (scanFrom vs) = [] \<longleftrightarrow> map fst (codeEntries (scanFrom vs)) = []"
    by simp
  also have "\<dots> \<longleftrightarrow> set (filter (\<lambda>l. l \<notin> set EXCLUDE_FROM_PERCENTAGES) (classifiedLanguages vs)) = {}"
    unfolding codeEntries_keys by (auto simp: firstSeen_def filter_empty_conv)
  also have "\<dots> \<longleftrightarrow> filter isCodeFile vs = []"
    by (auto simp: set_classifiedLanguages isCodeFile_def filter_empty_conv split: option.splits)
  finally show ?thesis .
qed

subsection \<open>The stable sort and its head\<close>










lemma codeLanguages_empty: "codeLanguages vs = [] \<longleftrightarrow> filter isCodeFile vs = []"
  using codeEntries_empty [of vs] codeEntries_keys [of vs]
  by (simp add: codeLanguages_def) (metis map_is_Nil_conv)


lemma walk_flat:
  "walkDirectory p (Directory (map (\<lambda>name. (name, RegularFile (Some n))) names)) =
     map (\<lambda>name. (join p name, n)) names"
  by (induction names) simp_all

text \<open>
  C3. The walk enforces neither a maximum depth nor a maximum number of visited files:
  it visits the file at the bottom of a chain of \<open>n\<close> nested directories for every
  \<open>n\<close>, and every file of a directory of any size.
\<close>

theorem walkDirectory_has_no_bounds:
  "walkDirectory p (deepTree n) = [(deepPath p n, 1)]
   \<and> length (walkDirectory p (Directory (map (\<lambda>name. (name, RegularFile (Some 1))) names)))
       = length names"
  by (simp add: walk_deepTree walk_flat del: walkDirectory.simps)

text \<open>
  C8. Symbolic links are never traversed: the walk of a tree is the walk of the tree with
  every symbolic link removed, whatever the links point to, so a link to an ancestor adds
  no visit; the walk is a total function on finite trees and visits at most as many files
  as the tree has regular files.
\<close>

theorem symlinks_never_traversed:
  "walkDirectory p t = walkDirectory p (withoutSymlinks t)
   \<and> length (walkDirectory p t) \<le> regularFiles t"
  by (simp add: walk_withoutSymlinks length_walkDirectory)

subsection \<open>Evaluation at concrete trees\<close>

lemma classify_min_js: "classifyPath ''proj/bundle.min.js'' = Some ''JavaScript''"
  by (simp add: classifyPath_def extname_def basename_def toLowerCase_def lowerChar_def
      SKIP_EXTENSIONS_def languageFor_def EXTENSION_TO_LANGUAGE_def Let_def)

lemma classify_main_py: "classifyPath ''proj/main.py'' = Some ''Python''"
  by (simp add: classifyPath_def extname_def basename_def toLowerCase_def lowerChar_def
      SKIP_EXTENSIONS_def languageFor_def EXTENSION_TO_LANGUAGE_def Let_def)

lemma classify_lib_c: "classifyPath ''proj/lib.c'' = Some ''C''"
  by (simp add: classifyPath_def extname_def basename_def toLowerCase_def lowerChar_def
      SKIP_EXTENSIONS_def languageFor_def EXTENSION_TO_LANGUAGE_def Let_def)

lemma classify_package_json: "classifyPath ''proj/package.json'' = Some ''JSON''"
  by (simp add: classifyPath_def extname_def basename_def toLowerCase_def lowerChar_def
      SKIP_EXTENSIONS_def languageFor_def EXTENSION_TO_LANGUAGE_def Let_def)

lemmas classify_examples =
  classify_min_js classify_main_py classify_lib_c classify_package_json

lemma excluded_examples:
  "''JavaScript'' \<notin> set EXCLUDE_FROM_PERCENTAGES" "''Python'' \<notin> set EXCLUDE_FROM_PERCENTAGES"
  "''C'' \<notin> set EXCLUDE_FROM_PERCENTAGES" "''JSON'' \<in> set EXCLUDE_FROM_PERCENTAGES"
  by (simp_all add: EXCLUDE_FROM_PERCENTAGES_def)

lemma scan_eval:
  "scanLanguages dir tree =
     (let st = scanFrom (walkDirectory dir tree);
          langs = sort_key (\<lambda>l. - int (bytes l))
                    (map (breakdown (codeTotalBytes st)) (codeEntries st))
      in \<lparr>totalFiles = totalFiles st, totalBytes = totalBytes st, languages = langs,
          primaryLanguage = (if langs = [] then ''Unknown'' else language (hd langs))\<rparr>)"
  by (simp add: scanLanguages_def scanState_scanFrom sortByBytesDesc_def Let_def)

lemmas scan_defs =
  scan_eval scanFrom_def callback_classify codeEntries_def codeTotalBytes_def breakdown_def
  isCodeFile_def join_def Let_def

text \<open>
  C2. The exclusion set contains .min.js, but the scanner tests \<^verbatim>\<open>path.extname\<close>, which
  for bundle.min.js is .js: the bundle is not excluded. It is classified as JavaScript
  and counted in the language breakdown, the byte totals and the file count.
\<close>

theorem min_js_bundle_counted_as_JavaScript:
  "''.min.js'' \<in> set SKIP_EXTENSIONS
   \<and> extname ''proj/bundle.min.js'' = ''.js''
   \<and> scanLanguages ''proj'' (Directory [(''bundle.min.js'', RegularFile (Some 1000))]) =
       \<lparr>totalFiles = 1, totalBytes = 1000,
        languages =
          [\<lparr>language = ''JavaScript'', bytes = 1000, percentage = 100, fileCount = 1\<rparr>],
        primaryLanguage = ''JavaScript''\<rparr>"
  by (simp add: scan_defs classify_examples excluded_examples)
     (simp add: SKIP_EXTENSIONS_def extname_def basename_def)




section \<open>Properties of the slot scorer\<close>

lemma map_fst_SLOT_CATEGORY_MAP:
  "map fst SLOT_CATEGORY_MAP =
    [''project_name'', ''project_goal'', ''main_language'', ''framework'',
     ''backend'', ''server'', ''api_type'', ''database'', ''hosting'',
     ''cicd'', ''build_tool'', ''package_manager'', ''test_framework'', ''linter'',
     ''who'', ''what'', ''why'', ''where'', ''when'', ''how'']"
  by (simp add: SLOT_CATEGORY_MAP_def)

lemma applicable_project_human:
  assumes "set (categoriesOf t) = {''project'', ''human''}"
  shows "getApplicableSlots t =
    [''project_name'', ''project_goal'', ''main_language'',
     ''who'', ''what'', ''why'', ''where'', ''when'', ''how'']"
  unfolding getApplicableSlots_def map_fst_SLOT_CATEGORY_MAP
  by (simp add: slotInCategories_def assms SLOT_CATEGORY_MAP_def)

lemma counts_project_human:
  assumes "set (categoriesOf t) = {''project'', ''human''}"
  shows "applicableTechCount t = 3" and "applicableHumanCount t = 6"
  by (simp_all add: applicableTechCount_def applicableHumanCount_def
      applicable_project_human [OF assms] technicalSlots_def humanSlots_def)

lemma filled_counts_project_human:
  assumes "set (categoriesOf t) = {''project'', ''human''}"
    and "\<forall>slot \<in> set (getApplicableSlots t). filled m slot"
  shows "technicalFilled t m = 3" and "humanFilled t m = 6"
  using assms(2)
  by (simp_all add: technicalFilled_def humanFilled_def
      applicable_project_human [OF assms(1)] technicalSlots_def humanSlots_def)

lemma bonus_nonneg: "0 \<le> bonusPoints q ts"
  by (simp add: bonusPoints_def gradeBonus_def depthBonus_def tsBonus_def split: option.splits)

lemma slotScale_nonneg: "0 \<le> slotScale t"
  by (simp add: slotScale_def maxSlotPoints_def)

lemma enhancedScore_nonneg: "0 \<le> enhancedScore t m q ts"
  by (simp add: enhancedScore_def slotPoints_def bonus_nonneg slotScale_nonneg)

text \<open>
  C1. For a project type whose applicable categories are exactly project and human, the
  N/A slots and the applicable slots add up to 20, the raw maximum is 3 * 4 + 6 * 5 = 42,
  the scale is 86 / 42, and with every applicable slot filled and no bonus the score is
  exactly 86, which the rounding and the cap leave at 86.
\<close>

theorem project_human_type_scores_86:
  assumes "map_of TYPE_APPLICABLE_CATEGORIES t = Some cats"
    and "set cats = {''project'', ''human''}"
  shows "naSlotCount t + int (totalApplicable t) = 20
    \<and> applicableMaxRaw t = 42
    \<and> slotScale t = 86 / 42
    \<and> ((\<forall>slot \<in> set (getApplicableSlots t). filled m slot) \<and> bonusPoints q ts = 0
        \<longrightarrow> enhancedScore t m q ts = 86 \<and> fafScore t m q ts = 86)"
proof -
  have c: "set (categoriesOf t) = {''project'', ''human''}"
    using assms by (simp add: categoriesOf_def)
  have n: "applicableTechCount t = 3" "applicableHumanCount t = 6"
    using counts_project_human [OF c] by simp_all
  have raw: "applicableMaxRaw t = 42"
    by (simp add: applicableMaxRaw_def n)
  have sc: "slotScale t = 86 / 42"
    by (simp add: slotScale_def raw maxSlotPoints_def)
  have na: "naSlotCount t + int (totalApplicable t) = 20"
    by (simp add: naSlotCount_def)
  have full: "enhancedScore t m q ts = 86 \<and> fafScore t m q ts = 86"
    if f: "\<forall>slot \<in> set (getApplicableSlots t). filled m slot" and b: "bonusPoints q ts = 0"
  proof -
    have tf: "technicalFilled t m = 3" "humanFilled t m = 6"
      using filled_counts_project_human [OF c f] by simp_all
    have e: "enhancedScore t m q ts = 86"
      by (simp add: enhancedScore_def slotPoints_def tf sc b)
    show ?thesis
      by (simp add: e fafScore_def)
  qed
  show ?thesis
    using na raw sc full by blast
qed

theorem project_human_type_scores_86_witness:
  "map_of TYPE_APPLICABLE_CATEGORIES ''terraform'' = Some [''project'', ''human'']
   \<and> naSlotCount ''terraform'' = 11
   \<and> totalApplicable ''terraform'' = 9
   \<and> fafScore ''terraform''
        (map_of (map (\<lambda>k. (k, JStr ''x''))
           [''project_name'', ''project_goal'', ''main_language'',
            ''who'', ''what'', ''why'', ''where'', ''when'', ''how'']))
        \<lparr>highestGrade = ''MINIMAL'', intelligenceDepth = 0, filesCovered = 0\<rparr> None = 86"
proof -
  let ?m = "map_of (map (\<lambda>k. (k, JStr ''x''))
           [''project_name'', ''project_goal'', ''main_language'',
            ''who'', ''what'', ''why'', ''where'', ''when'', ''how''])"
  let ?q = "\<lparr>highestGrade = ''MINIMAL'', intelligenceDepth = 0, filesCovered = 0\<rparr>"
  have l: "map_of TYPE_APPLICABLE_CATEGORIES ''terraform'' = Some [''project'', ''human'']"
    by (simp add: TYPE_APPLICABLE_CATEGORIES_def)
  have s: "set [''project'', ''human''] = {''project'', ''human''}"
    by simp
  have c: "set (categoriesOf ''terraform'') = {''project'', ''human''}"
    using l by (simp add: categoriesOf_def)
  have f: "\<forall>slot \<in> set (getApplicableSlots ''terraform''). filled ?m slot"
    by (simp add: applicable_project_human [OF c] filled_def slotValue_def)
  have b: "bonusPoints ?q None = 0"
    by (simp add: bonusPoints_def gradeBonus_def depthBonus_def tsBonus_def)
  have t: "totalApplicable ''terraform'' = 9"
    by (simp add: totalApplicable_def counts_project_human [OF c])
  from project_human_type_scores_86 [OF l s, of ?m ?q None] f b t l
  show ?thesis
    by (simp add: naSlotCount_def)
qed

text \<open>
  C5. The final score is the rounded total capped at 99; the total is a sum of
  non-negative terms, so the score lies between 0 and 99 and is never 100.
\<close>

theorem fafScore_range:
  "fafScore t m q ts = min (round (enhancedScore t m q ts)) 99
   \<and> 0 \<le> fafScore t m q ts \<and> fafScore t m q ts \<le> 99 \<and> fafScore t m q ts \<noteq> 100"
proof -
  have "0 \<le> round (enhancedScore t m q ts)"
    using enhancedScore_nonneg [of t m q ts] by (simp add: round_def)
  then show ?thesis
    by (simp add: fafScore_def)
qed

section \<open>Properties of slot filling and of the pipeline\<close>



































subsection \<open>The README path of the AI analysis\<close>



subsection \<open>Exceptions\<close>

lemma invalid_root_throws:
  "\<not> validProjectRoot (opt_projectRoot options) \<Longrightarrow>
     generateFafFromProject w options = Inl InvalidProjectRoot"
  by (simp add: generateFafFromProject_def)

lemma depsOf_Null: "depsOf Null = Inl TypeError"
  by (simp add: depsOf_def)

text \<open>
  C9. With a valid project root, a package.json whose content is the JSON value null
  makes \<^verbatim>\<open>packageData.dependencies\<close> throw, and one whose name is a number makes
  \<^verbatim>\<open>packageData.name?.includes\<close> throw; neither read is inside a try/catch, so the
  TypeError reaches the caller.
\<close>

theorem null_package_json_propagates_TypeError:
  "validProjectRoot (opt_projectRoot defaultOptions)
   \<and> generateFafFromProject (emptyProject\<lparr>packageJson := Some (Some Null)\<rparr>) defaultOptions
       = Inl TypeError
   \<and> generateFafFromProject
        (emptyProject\<lparr>packageJson := Some (Some (JObj [(''name'', JNum 1)]))\<rparr>) defaultOptions
       = Inl TypeError"
  by (simp add: generateFafFromProject_def validProjectRoot_def defaultOptions_def
      packageData_def depsOf_def isNodeCLI_def)

subsection \<open>Concrete runs\<close>







end
